theory Spec2Isabelle
  imports Main "HOL-Library.Word"
begin

section \<open>The attach command of the container CLI (cli/command/container/attach.go)\<close>

text \<open>
  The development embeds \<^verbatim>\<open>inspectContainerAndCheckState\<close>, \<^verbatim>\<open>RunAttach\<close>,
  \<^verbatim>\<open>getExitStatus\<close> and \<^verbatim>\<open>resizeTTY\<close>. Everything these functions call on the
  daemon, the terminal and the streamer is a field of the record \<open>dockerCli\<close>, which holds
  the answer each call gives; every call that has an effect is recorded, in program
  order, as an event of a trace. A function returns its trace and its Go return value.
  The two helpers of the resize that attach.go calls and does not define are modelled
  from the specification, and marked so.
\<close>

subsection \<open>Errors\<close>

text \<open>
  Go's \<^verbatim>\<open>int\<close> is as wide as the build target's machine word; \<^verbatim>\<open>int(x)\<close> on an
  \<^verbatim>\<open>int64\<close> keeps the low bits. The width is the type parameter of \<open>go_int\<close>; the
  program is modelled for the 64-bit targets (\<open>int_t\<close>), where the conversion is the identity.
\<close>

type_synonym int64 = "64 word"
type_synonym int_t = "64 word"

definition go_int :: "int64 \<Rightarrow> 'w::len word" where
  "go_int x = scast x"

text \<open>
  An \<^verbatim>\<open>error\<close> value: \<^verbatim>\<open>errors.New(msg)\<close>, \<^verbatim>\<open>cli.StatusError{StatusCode: n}\<close> (its
  other fields at their zero values), \<^verbatim>\<open>context.Canceled\<close>, an error wrapping another
  one (what \<^verbatim>\<open>Unwrap\<close> returns), and any other error of the daemon or of the streams.
  A nil error is \<open>None\<close> of \<open>error option\<close>.
\<close>

datatype error =
    ErrorsNew string
  | StatusError int_t
  | ContextCanceled
  | Wrapped string error
  | OtherError string

text \<open>\<^verbatim>\<open>errors.Is(err, target)\<close>: \<open>err\<close> or an error on its \<^verbatim>\<open>Unwrap\<close> chain equals the target.\<close>

fun errors_Is :: "error \<Rightarrow> error \<Rightarrow> bool" where
  "errors_Is (Wrapped msg inner) target = (Wrapped msg inner = target \<or> errors_Is inner target)"
| "errors_Is err target = (err = target)"

subsection \<open>Contexts\<close>

text \<open>
  A \<^verbatim>\<open>context.Context\<close> as the tree the standard library builds: the background
  context, a child with its own cancel function (named by a number), and
  \<^verbatim>\<open>context.WithoutCancel(parent)\<close>. \<open>ctx_canceled fired ctx\<close> says whether \<open>ctx\<close> is
  done once the cancel functions in \<open>fired\<close> have been called: a child is cancelled with
  its parent, a \<^verbatim>\<open>WithoutCancel\<close> context never.
\<close>

datatype Context = Background | WithCancel nat Context | WithoutCancel Context

fun ctx_canceled :: "nat list \<Rightarrow> Context \<Rightarrow> bool" where
  "ctx_canceled fired Background = False"
| "ctx_canceled fired (WithCancel c parent) = (c \<in> set fired \<or> ctx_canceled fired parent)"
| "ctx_canceled fired (WithoutCancel parent) = False"

subsection \<open>Data of the API and of the command\<close>

text \<open>
  \<^verbatim>\<open>container.InspectResponse\<close>, reduced to the fields attach.go reads. A response the
  client has decoded carries its \<open>State\<close> and its \<open>Config\<close>; a nil pointer in their place
  is not modelled.
\<close>

record container_State =
  Running :: bool
  Paused :: bool
  Restarting :: bool

record container_Config =
  Tty :: bool
  OpenStdin :: bool

record InspectResponse =
  State :: container_State
  Config :: container_Config

text \<open>\<^verbatim>\<open>container.WaitResponse\<close>: \<open>Error\<close> is a pointer (nil is \<open>None\<close>).\<close>

record WaitExitError =
  Message :: string

record WaitResponse =
  Error :: "WaitExitError option"
  StatusCode :: int64

text \<open>\<^verbatim>\<open>AttachOptions\<close> of the command (lines 19-23).\<close>

record AttachOptions =
  NoStdin :: bool
  Proxy :: bool
  DetachKeys :: string

text \<open>\<^verbatim>\<open>container.AttachOptions\<close> of the API, as lines 92-98 fill it.\<close>

record container_AttachOptions =
  Stream :: bool
  Stdin :: bool
  Stdout :: bool
  Stderr :: bool
  DetachKeys :: string

text \<open>The three streams of the CLI, and the handle of a hijacked connection.\<close>

datatype cli_stream = cli_In | cli_Out | cli_Err

type_synonym HijackedResponse = nat

text \<open>\<^verbatim>\<open>hijackedIOStreamer\<close> as lines 139-147 build it (\<open>inputStream\<close> may be nil).\<close>

record hijackedIOStreamer =
  inputStream :: "cli_stream option"
  outputStream :: cli_stream
  errorStream :: cli_stream
  resp :: HijackedResponse
  tty :: bool
  detachKeys :: string

subsection \<open>Channels and return values\<close>

text \<open>
  What the two channels of \<^verbatim>\<open>ContainerWait\<close> hold when \<^verbatim>\<open>select\<close> reads them: the
  result channel delivers first, the error channel delivers first (a Go channel can
  deliver a nil error), or neither ever delivers and the select blocks for good. Should
  both be ready, \<^verbatim>\<open>select\<close> takes one of the two cases; the constructor names the case
  taken. A function either returns its error value or never returns.
\<close>

datatype chan_race = ResultFirst WaitResponse | ErrFirst "error option" | NeitherReady

datatype go_return = Returned "error option" | Blocked

subsection \<open>The environment and the trace\<close>

text \<open>
  The answers of the world. \<open>ContainerInspect n\<close> is the daemon's answer to the \<open>n\<close>-th
  inspect call (the state can change between calls), \<open>CheckTty\<close> the check of the input
  stream, \<open>GetTtySize n\<close> the \<open>n\<close>-th measurement of the terminal as (height, width),
  \<open>stream s\<close> what \<^verbatim>\<open>streamer.stream(ctx)\<close> returns, or \<open>Blocked\<close> when the copying
  never ends and the call never returns, \<open>ContainerWait\<close> what the channels of the wait
  deliver. Calls on the daemon, on the signal package and on the streamer are
  events of the trace; reading the configuration file or the terminal leaves no event.
\<close>

record dockerCli =
  ContainerInspect :: "nat \<Rightarrow> error + InspectResponse"
  CheckTty :: "bool \<Rightarrow> bool \<Rightarrow> error option"
  ConfigFile_DetachKeys :: string
  ContainerAttach :: "container_AttachOptions \<Rightarrow> error + HijackedResponse"
  IsTerminal :: bool
  GetTtySize :: "nat \<Rightarrow> nat \<times> nat"
  stream :: "hijackedIOStreamer \<Rightarrow> go_return"
  ContainerWait :: chan_race

datatype event =
    is_ContainerWait: Ev_ContainerWait Context string string
  | is_ContainerInspect: Ev_ContainerInspect Context string
  | is_CheckTty: Ev_CheckTty bool bool
  | is_notifyAllSignals: Ev_notifyAllSignals
  | is_ForwardAllSignals: Ev_go_ForwardAllSignals Context string
  | is_StopCatch: Ev_StopCatch
  | is_ContainerAttach: Ev_ContainerAttach Context string container_AttachOptions
  | is_resp_Close: Ev_resp_Close HijackedResponse
  | is_ContainerResize: Ev_ContainerResize Context string nat nat
  | is_MonitorSubscribe: Ev_MonitorSubscribe Context string
  | is_stream: Ev_stream Context hijackedIOStreamer

subsection \<open>inspectContainerAndCheckState (lines 25-41)\<close>

definition inspectContainerAndCheckState ::
  "dockerCli \<Rightarrow> nat \<Rightarrow> Context \<Rightarrow> string \<Rightarrow> event list \<times> (error + InspectResponse)" where
  "inspectContainerAndCheckState apiClient n ctx args =
     ([Ev_ContainerInspect ctx args],
      (case ContainerInspect apiClient n of
         Inl err \<Rightarrow> Inl err
       | Inr c \<Rightarrow>
           if \<not> Running (State c) then
             Inl (ErrorsNew ''You cannot attach to a stopped container, start it first'')
           else if Paused (State c) then
             Inl (ErrorsNew ''You cannot attach to a paused container, unpause it first'')
           else if Restarting (State c) then
             Inl (ErrorsNew ''You cannot attach to a restarting container, wait until it is running'')
           else Inr c))"

subsection \<open>getExitStatus (lines 157-171)\<close>

definition getExitStatus :: "chan_race \<Rightarrow> go_return" where
  "getExitStatus race =
     (case race of
        ResultFirst result \<Rightarrow>
          (case Error result of
             Some e \<Rightarrow> Returned (Some (ErrorsNew (Message e)))
           | None \<Rightarrow>
               if StatusCode result \<noteq> 0
               then Returned (Some (StatusError (go_int (StatusCode result))))
               else Returned None)
      | ErrFirst err \<Rightarrow> Returned err
      | NeitherReady \<Rightarrow> Blocked)"

subsection \<open>resizeTTY (lines 173-186)\<close>

text \<open>
  Modelled from the spec: the body of \<^verbatim>\<open>resizeTtyTo\<close>, which attach.go calls and does
  not define. Spec 4.4: a resize request with the given size is issued to the remote
  process; a failure is logged and is not fatal.
\<close>

definition resizeTtyTo :: "Context \<Rightarrow> string \<Rightarrow> nat \<Rightarrow> nat \<Rightarrow> event list" where
  "resizeTtyTo ctx containerID height width = [Ev_ContainerResize ctx containerID height width]"

text \<open>
  Modelled from the spec: the body of \<^verbatim>\<open>MonitorTtySize\<close>, which attach.go calls and does
  not define. Spec 4.4: the spurious resize is immediately followed by the correct size,
  the current size of the terminal (its \<open>n\<close>-th measurement); after this initial
  correction the monitor subscribes to the "terminal size changed" notification. Failures
  to resize are logged, so the error returned is nil. The terminal size is the spec's
  (height, width) pair of section 3.
\<close>

definition MonitorTtySize ::
  "dockerCli \<Rightarrow> nat \<Rightarrow> Context \<Rightarrow> string \<Rightarrow> event list \<times> error option" where
  "MonitorTtySize dockerCLI n ctx containerID =
     (let (height, width) = GetTtySize dockerCLI n
      in (resizeTtyTo ctx containerID height width @ [Ev_MonitorSubscribe ctx containerID], None))"

text \<open>
  \<^verbatim>\<open>resizeTTY\<close> measures the terminal, asks for one row and one column more, and leaves
  the reset to \<^verbatim>\<open>MonitorTtySize\<close>, whose error it only logs.
\<close>

definition resizeTTY :: "dockerCli \<Rightarrow> Context \<Rightarrow> string \<Rightarrow> event list" where
  "resizeTTY dockerCLI ctx containerID =
     (let (height, width) = GetTtySize dockerCLI 0;
          t1 = resizeTtyTo ctx containerID (height + 1) (width + 1);
          (t2, err) = MonitorTtySize dockerCLI 1 ctx containerID
      in t1 @ t2)"

subsection \<open>RunAttach (lines 71-155)\<close>

text \<open>
  A return runs the deferred calls registered so far, last registered first; a function
  that blocks for good never runs them. \<^verbatim>\<open>RunAttach\<close> can block in two places: in the
  streamer (line 150) and in the \<^verbatim>\<open>select\<close> of \<^verbatim>\<open>getExitStatus\<close> (line 154).
\<close>

definition return_with :: "event list \<Rightarrow> event list \<Rightarrow> go_return \<Rightarrow> event list \<times> go_return" where
  "return_with trace deferred r =
     (case r of Returned e \<Rightarrow> (trace @ deferred, Returned e) | Blocked \<Rightarrow> (trace, Blocked))"

definition RunAttach ::
  "dockerCli \<Rightarrow> Context \<Rightarrow> string \<Rightarrow> AttachOptions \<Rightarrow> event list \<times> go_return" where
  "RunAttach dockerCLI ctx containerID opts =
     (let waitCtx = WithoutCancel ctx;
          t0 = [Ev_ContainerWait waitCtx containerID ''''];
          (t1, r1) = inspectContainerAndCheckState dockerCLI 0 ctx containerID
      in case r1 of
           Inl err \<Rightarrow> return_with (t0 @ t1) [] (Returned (Some err))
         | Inr c \<Rightarrow>
             let t2 = [Ev_CheckTty (\<not> NoStdin opts) (Tty (Config c))]
             in (case CheckTty dockerCLI (\<not> NoStdin opts) (Tty (Config c)) of
                   Some err \<Rightarrow> return_with (t0 @ t1 @ t2) [] (Returned (Some err))
                 | None \<Rightarrow>
                     let detachKeys =
                           (if AttachOptions.DetachKeys opts \<noteq> ''''
                            then AttachOptions.DetachKeys opts
                            else ConfigFile_DetachKeys dockerCLI);
                         options = \<lparr>Stream = True,
                                    Stdin = (\<not> NoStdin opts \<and> OpenStdin (Config c)),
                                    Stdout = True,
                                    Stderr = True,
                                    DetachKeys = detachKeys\<rparr>;
                         in_stream = (if Stdin options then Some cli_In else None);
                         proxy = (Proxy opts \<and> \<not> Tty (Config c));
                         bgCtx = WithoutCancel ctx;
                         t3 = (if proxy
                               then [Ev_notifyAllSignals, Ev_go_ForwardAllSignals bgCtx containerID]
                               else []);
                         d1 = (if proxy then [Ev_StopCatch] else []);
                         t4 = [Ev_ContainerAttach ctx containerID options]
                     in (case ContainerAttach dockerCLI options of
                           Inl errAttach \<Rightarrow>
                             return_with (t0 @ t1 @ t2 @ t3 @ t4) d1 (Returned (Some errAttach))
                         | Inr resp_conn \<Rightarrow>
                             let d2 = Ev_resp_Close resp_conn # d1;
                                 (t5, r5) = inspectContainerAndCheckState dockerCLI 1 ctx containerID
                             in (case r5 of
                                   Inl err \<Rightarrow>
                                     return_with (t0 @ t1 @ t2 @ t3 @ t4 @ t5) d2 (Returned (Some err))
                                 | Inr c' \<Rightarrow>
                                     let t6 = (if Tty (Config c) \<and> IsTerminal dockerCLI
                                               then resizeTTY dockerCLI ctx containerID
                                               else []);
                                         streamer = \<lparr>inputStream = in_stream,
                                                     outputStream = cli_Out,
                                                     errorStream = cli_Err,
                                                     resp = resp_conn,
                                                     tty = Tty (Config c),
                                                     detachKeys = DetachKeys options\<rparr>;
                                         t7 = [Ev_stream ctx streamer];
                                         trace = t0 @ t1 @ t2 @ t3 @ t4 @ t5 @ t6 @ t7
                                     in (case stream dockerCLI streamer of
                                           Blocked \<Rightarrow> (trace, Blocked)
                                         | Returned None \<Rightarrow>
                                             return_with trace d2
                                               (getExitStatus (ContainerWait dockerCLI))
                                         | Returned (Some err) \<Rightarrow>
                                             if \<not> errors_Is err ContextCanceled
                                             then return_with trace d2 (Returned (Some err))
                                             else return_with trace d2
                                                    (getExitStatus (ContainerWait dockerCLI)))))))"

subsection \<open>Reading a trace\<close>

text \<open>\<open>event_after P tr\<close> is the event that follows the first event of \<open>tr\<close> satisfying \<open>P\<close>.\<close>

fun event_after :: "(event \<Rightarrow> bool) \<Rightarrow> event list \<Rightarrow> event option" where
  "event_after P [] = None"
| "event_after P [e] = None"
| "event_after P (e # e' # es) = (if P e then Some e' else event_after P (e' # es))"

text \<open>
  Names for the values \<^verbatim>\<open>RunAttach\<close> builds from the first inspect response \<open>c\<close>, used to
  state the shape of its traces: the attach options (lines 87-98), the streamer
  (lines 100-103 and 139-147), the events of the signal forwarder and its deferred
  release (lines 105-114), and the events of the resize (lines 135-137).
\<close>

definition options_of :: "dockerCli \<Rightarrow> AttachOptions \<Rightarrow> InspectResponse \<Rightarrow> container_AttachOptions" where
  "options_of dockerCLI opts c =
     \<lparr>Stream = True,
      Stdin = (\<not> NoStdin opts \<and> OpenStdin (Config c)),
      Stdout = True,
      Stderr = True,
      DetachKeys = (if AttachOptions.DetachKeys opts \<noteq> ''''
                    then AttachOptions.DetachKeys opts
                    else ConfigFile_DetachKeys dockerCLI)\<rparr>"

definition streamer_of ::
  "dockerCli \<Rightarrow> AttachOptions \<Rightarrow> InspectResponse \<Rightarrow> HijackedResponse \<Rightarrow> hijackedIOStreamer" where
  "streamer_of dockerCLI opts c conn =
     \<lparr>inputStream = (if Stdin (options_of dockerCLI opts c) then Some cli_In else None),
      outputStream = cli_Out,
      errorStream = cli_Err,
      resp = conn,
      tty = Tty (Config c),
      detachKeys = DetachKeys (options_of dockerCLI opts c)\<rparr>"

definition signal_setup :: "Context \<Rightarrow> string \<Rightarrow> AttachOptions \<Rightarrow> InspectResponse \<Rightarrow> event list" where
  "signal_setup ctx containerID opts c =
     (if Proxy opts \<and> \<not> Tty (Config c)
      then [Ev_notifyAllSignals, Ev_go_ForwardAllSignals (WithoutCancel ctx) containerID]
      else [])"

definition signal_release :: "AttachOptions \<Rightarrow> InspectResponse \<Rightarrow> event list" where
  "signal_release opts c = (if Proxy opts \<and> \<not> Tty (Config c) then [Ev_StopCatch] else [])"

definition resize_events :: "dockerCli \<Rightarrow> Context \<Rightarrow> string \<Rightarrow> InspectResponse \<Rightarrow> event list" where
  "resize_events dockerCLI ctx containerID c =
     (if Tty (Config c) \<and> IsTerminal dockerCLI then resizeTTY dockerCLI ctx containerID else [])"

text \<open>The events up to and including the attach call, and up to the call of the streamer.\<close>

definition trace_to_attach ::
  "dockerCli \<Rightarrow> Context \<Rightarrow> string \<Rightarrow> AttachOptions \<Rightarrow> InspectResponse \<Rightarrow> event list" where
  "trace_to_attach dockerCLI ctx containerID opts c =
     [Ev_ContainerWait (WithoutCancel ctx) containerID '''',
      Ev_ContainerInspect ctx containerID,
      Ev_CheckTty (\<not> NoStdin opts) (Tty (Config c))]
     @ signal_setup ctx containerID opts c
     @ [Ev_ContainerAttach ctx containerID (options_of dockerCLI opts c)]"

definition trace_to_stream ::
  "dockerCli \<Rightarrow> Context \<Rightarrow> string \<Rightarrow> AttachOptions \<Rightarrow> InspectResponse \<Rightarrow> HijackedResponse
     \<Rightarrow> event list" where
  "trace_to_stream dockerCLI ctx containerID opts c conn =
     trace_to_attach dockerCLI ctx containerID opts c
     @ [Ev_ContainerInspect ctx containerID]
     @ resize_events dockerCLI ctx containerID c
     @ [Ev_stream ctx (streamer_of dockerCLI opts c conn)]"

subsection \<open>Example environments\<close>

text \<open>
  A running container with a TTY and an open stdin, and one without TTY and with stdin
  closed; a CLI whose every call succeeds, whose terminal measures 24 rows by 80 columns,
  whose streamer ends with the cancellation error and whose wait result carries status 3;
  a cancellable context and the default options of the command (\<^verbatim>\<open>--sig-proxy\<close> is
  on by default).
\<close>

definition running_tty :: InspectResponse where
  "running_tty = \<lparr>State = \<lparr>Running = True, Paused = False, Restarting = False\<rparr>,
                  Config = \<lparr>Tty = True, OpenStdin = True\<rparr>\<rparr>"

definition running_plain :: InspectResponse where
  "running_plain = \<lparr>State = \<lparr>Running = True, Paused = False, Restarting = False\<rparr>,
                    Config = \<lparr>Tty = False, OpenStdin = False\<rparr>\<rparr>"

definition example_cli :: dockerCli where
  "example_cli = \<lparr>ContainerInspect = (\<lambda>n. Inr running_tty),
                  CheckTty = (\<lambda>attachStdin ttyMode. None),
                  ConfigFile_DetachKeys = ''ctrl-p,ctrl-q'',
                  ContainerAttach = (\<lambda>options. Inr 7),
                  IsTerminal = True,
                  GetTtySize = (\<lambda>n. (24, 80)),
                  stream = (\<lambda>s. Returned (Some ContextCanceled)),
                  ContainerWait = ResultFirst \<lparr>Error = None, StatusCode = 3\<rparr>\<rparr>"

definition example_ctx :: Context where
  "example_ctx = WithCancel 0 Background"

definition example_opts :: AttachOptions where
  "example_opts = \<lparr>NoStdin = False, Proxy = True, DetachKeys = ''''\<rparr>"

text \<open>
  The streamer \<^verbatim>\<open>RunAttach\<close> builds for \<open>example_cli\<close>, a CLI whose streamer fails with
  an I/O error, and a paused container.
\<close>

definition example_streamer :: hijackedIOStreamer where
  "example_streamer = \<lparr>inputStream = Some cli_In,
                       outputStream = cli_Out,
                       errorStream = cli_Err,
                       resp = 7,
                       tty = True,
                       detachKeys = ''ctrl-p,ctrl-q''\<rparr>"

definition broken_pipe_cli :: dockerCli where
  "broken_pipe_cli = example_cli\<lparr>stream := (\<lambda>s. Returned (Some (OtherError ''broken pipe'')))\<rparr>"

definition paused_container :: InspectResponse where
  "paused_container = \<lparr>State = \<lparr>Running = True, Paused = True, Restarting = False\<rparr>,
                       Config = \<lparr>Tty = True, OpenStdin = True\<rparr>\<rparr>"

definition paused_cli :: dockerCli where
  "paused_cli = example_cli\<lparr>ContainerInspect := (\<lambda>n. Inr paused_container)\<rparr>"

text \<open>
  A container that stops between the first validation and the second, the attach options
  \<^verbatim>\<open>RunAttach\<close> builds for \<open>example_cli\<close>, a CLI whose container has neither TTY nor
  open stdin, and options that override the detach keys.
\<close>

definition stopped_container :: InspectResponse where
  "stopped_container = \<lparr>State = \<lparr>Running = False, Paused = False, Restarting = False\<rparr>,
                        Config = \<lparr>Tty = True, OpenStdin = True\<rparr>\<rparr>"

definition exited_cli :: dockerCli where
  "exited_cli = example_cli\<lparr>ContainerInspect :=
                   (\<lambda>n. if n = 0 then Inr running_tty else Inr stopped_container)\<rparr>"

definition example_options :: container_AttachOptions where
  "example_options = \<lparr>Stream = True, Stdin = True, Stdout = True, Stderr = True,
                      DetachKeys = ''ctrl-p,ctrl-q''\<rparr>"

definition plain_cli :: dockerCli where
  "plain_cli = example_cli\<lparr>ContainerInspect := (\<lambda>n. Inr running_plain)\<rparr>"

definition override_opts :: AttachOptions where
  "override_opts = \<lparr>NoStdin = True, Proxy = False, DetachKeys = ''ctrl-x''\<rparr>"

text \<open>
  The streamer built for \<open>plain_cli\<close>, the attach options and the streamer built from
  \<open>override_opts\<close>, and a CLI whose wait fails after it was established.
\<close>

definition plain_streamer :: hijackedIOStreamer where
  "plain_streamer = \<lparr>inputStream = None,
                     outputStream = cli_Out,
                     errorStream = cli_Err,
                     resp = 7,
                     tty = False,
                     detachKeys = ''ctrl-p,ctrl-q''\<rparr>"

definition override_options :: container_AttachOptions where
  "override_options = \<lparr>Stream = True, Stdin = False, Stdout = True, Stderr = True,
                       DetachKeys = ''ctrl-x''\<rparr>"

definition override_streamer :: hijackedIOStreamer where
  "override_streamer = \<lparr>inputStream = None,
                        outputStream = cli_Out,
                        errorStream = cli_Err,
                        resp = 7,
                        tty = True,
                        detachKeys = ''ctrl-x''\<rparr>"

definition wait_failed_cli :: dockerCli where
  "wait_failed_cli = example_cli\<lparr>ContainerWait := ErrFirst (Some (OtherError ''wait failed''))\<rparr>"

section \<open>Properties\<close>

subsection \<open>The shape of a run\<close>

lemma inspect_fst:
  "fst (inspectContainerAndCheckState cli n ctx cid) = [Ev_ContainerInspect ctx cid]"
  by (simp add: inspectContainerAndCheckState_def)

lemma inspect_Inr:
  "snd (inspectContainerAndCheckState cli n ctx cid) = Inr c \<longleftrightarrow>
     ContainerInspect cli n = Inr c \<and> Running (State c) \<and> \<not> Paused (State c) \<and> \<not> Restarting (State c)"
  by (auto simp: inspectContainerAndCheckState_def split: sum.splits)

lemma RunAttach_cases [case_names inspect_failed tty_failed attach_failed recheck_failed
    stream_failed exit_status blocked stream_blocked]:
  obtains
    err where
      "snd (inspectContainerAndCheckState cli 0 ctx cid) = Inl err"
      "RunAttach cli ctx cid opts =
         ([Ev_ContainerWait (WithoutCancel ctx) cid '''', Ev_ContainerInspect ctx cid],
          Returned (Some err))"
  | c err where
      "snd (inspectContainerAndCheckState cli 0 ctx cid) = Inr c"
      "CheckTty cli (\<not> NoStdin opts) (Tty (Config c)) = Some err"
      "RunAttach cli ctx cid opts =
         ([Ev_ContainerWait (WithoutCancel ctx) cid '''', Ev_ContainerInspect ctx cid,
           Ev_CheckTty (\<not> NoStdin opts) (Tty (Config c))],
          Returned (Some err))"
  | c err where
      "snd (inspectContainerAndCheckState cli 0 ctx cid) = Inr c"
      "CheckTty cli (\<not> NoStdin opts) (Tty (Config c)) = None"
      "ContainerAttach cli (options_of cli opts c) = Inl err"
      "RunAttach cli ctx cid opts =
         (trace_to_attach cli ctx cid opts c @ signal_release opts c, Returned (Some err))"
  | c conn err where
      "snd (inspectContainerAndCheckState cli 0 ctx cid) = Inr c"
      "CheckTty cli (\<not> NoStdin opts) (Tty (Config c)) = None"
      "ContainerAttach cli (options_of cli opts c) = Inr conn"
      "snd (inspectContainerAndCheckState cli 1 ctx cid) = Inl err"
      "RunAttach cli ctx cid opts =
         (trace_to_attach cli ctx cid opts c @ [Ev_ContainerInspect ctx cid]
            @ Ev_resp_Close conn # signal_release opts c,
          Returned (Some err))"
  | c conn c' err where
      "snd (inspectContainerAndCheckState cli 0 ctx cid) = Inr c"
      "CheckTty cli (\<not> NoStdin opts) (Tty (Config c)) = None"
      "ContainerAttach cli (options_of cli opts c) = Inr conn"
      "snd (inspectContainerAndCheckState cli 1 ctx cid) = Inr c'"
      "stream cli (streamer_of cli opts c conn) = Returned (Some err)"
      "\<not> errors_Is err ContextCanceled"
      "RunAttach cli ctx cid opts =
         (trace_to_stream cli ctx cid opts c conn @ Ev_resp_Close conn # signal_release opts c,
          Returned (Some err))"
  | c conn c' e where
      "snd (inspectContainerAndCheckState cli 0 ctx cid) = Inr c"
      "CheckTty cli (\<not> NoStdin opts) (Tty (Config c)) = None"
      "ContainerAttach cli (options_of cli opts c) = Inr conn"
      "snd (inspectContainerAndCheckState cli 1 ctx cid) = Inr c'"
      "stream cli (streamer_of cli opts c conn) = Returned None \<or>
       (\<exists>err. stream cli (streamer_of cli opts c conn) = Returned (Some err)
          \<and> errors_Is err ContextCanceled)"
      "getExitStatus (ContainerWait cli) = Returned e"
      "RunAttach cli ctx cid opts =
         (trace_to_stream cli ctx cid opts c conn @ Ev_resp_Close conn # signal_release opts c,
          Returned e)"
  | c conn c' where
      "snd (inspectContainerAndCheckState cli 0 ctx cid) = Inr c"
      "CheckTty cli (\<not> NoStdin opts) (Tty (Config c)) = None"
      "ContainerAttach cli (options_of cli opts c) = Inr conn"
      "snd (inspectContainerAndCheckState cli 1 ctx cid) = Inr c'"
      "stream cli (streamer_of cli opts c conn) = Returned None \<or>
       (\<exists>err. stream cli (streamer_of cli opts c conn) = Returned (Some err)
          \<and> errors_Is err ContextCanceled)"
      "getExitStatus (ContainerWait cli) = Blocked"
      "RunAttach cli ctx cid opts = (trace_to_stream cli ctx cid opts c conn, Blocked)"
  | c conn c' where
      "snd (inspectContainerAndCheckState cli 0 ctx cid) = Inr c"
      "CheckTty cli (\<not> NoStdin opts) (Tty (Config c)) = None"
      "ContainerAttach cli (options_of cli opts c) = Inr conn"
      "snd (inspectContainerAndCheckState cli 1 ctx cid) = Inr c'"
      "stream cli (streamer_of cli opts c conn) = Blocked"
      "RunAttach cli ctx cid opts = (trace_to_stream cli ctx cid opts c conn, Blocked)"
proof (cases "snd (inspectContainerAndCheckState cli 0 ctx cid)")
  case (Inl err)
  then have "RunAttach cli ctx cid opts =
         ([Ev_ContainerWait (WithoutCancel ctx) cid '''', Ev_ContainerInspect ctx cid],
          Returned (Some err))"
    by (simp add: RunAttach_def return_with_def split_beta inspect_fst)
  with Inl show ?thesis by (rule that(1))
next
  case (Inr c)
  note c = Inr
  show ?thesis
  proof (cases "CheckTty cli (\<not> NoStdin opts) (Tty (Config c))")
    case (Some err)
    with c have "RunAttach cli ctx cid opts =
         ([Ev_ContainerWait (WithoutCancel ctx) cid '''', Ev_ContainerInspect ctx cid,
           Ev_CheckTty (\<not> NoStdin opts) (Tty (Config c))],
          Returned (Some err))"
      by (simp add: RunAttach_def return_with_def split_beta inspect_fst)
    with c Some show ?thesis by (rule that(2))
  next
    case None
    note tty = None
    show ?thesis
    proof (cases "ContainerAttach cli (options_of cli opts c)")
      case (Inl err)
      with c tty have "RunAttach cli ctx cid opts =
         (trace_to_attach cli ctx cid opts c @ signal_release opts c, Returned (Some err))"
        by (simp add: RunAttach_def return_with_def split_beta inspect_fst Let_def
            options_of_def trace_to_attach_def signal_setup_def signal_release_def)
      with c tty Inl show ?thesis by (rule that(3))
    next
      case (Inr conn)
      note att = Inr
      show ?thesis
      proof (cases "snd (inspectContainerAndCheckState cli 1 ctx cid)")
        case (Inl err)
        with c tty att have "RunAttach cli ctx cid opts =
         (trace_to_attach cli ctx cid opts c @ [Ev_ContainerInspect ctx cid]
            @ Ev_resp_Close conn # signal_release opts c,
          Returned (Some err))"
          by (simp add: RunAttach_def return_with_def split_beta inspect_fst Let_def
            options_of_def trace_to_attach_def signal_setup_def signal_release_def)
        with c tty att Inl show ?thesis by (rule that(4))
      next
        case (Inr c')
        note re = Inr
        have run: "RunAttach cli ctx cid opts =
           (case stream cli (streamer_of cli opts c conn) of
              Blocked \<Rightarrow> (trace_to_stream cli ctx cid opts c conn, Blocked)
            | Returned None \<Rightarrow> return_with (trace_to_stream cli ctx cid opts c conn)
                       (Ev_resp_Close conn # signal_release opts c) (getExitStatus (ContainerWait cli))
            | Returned (Some err) \<Rightarrow>
                if \<not> errors_Is err ContextCanceled
                then return_with (trace_to_stream cli ctx cid opts c conn)
                       (Ev_resp_Close conn # signal_release opts c) (Returned (Some err))
                else return_with (trace_to_stream cli ctx cid opts c conn)
                       (Ev_resp_Close conn # signal_release opts c) (getExitStatus (ContainerWait cli)))"
        proof (cases "stream cli (streamer_of cli opts c conn)")
          case Blocked
          with c tty att re show ?thesis
            by (simp add: RunAttach_def split_beta inspect_fst Let_def
              options_of_def trace_to_attach_def trace_to_stream_def streamer_of_def
              signal_setup_def signal_release_def resize_events_def split del: if_split cong: if_cong)
        next
          case (Returned streamErr)
          show ?thesis
          proof (cases streamErr)
            case None
            with Returned c tty att re show ?thesis
              by (simp add: RunAttach_def split_beta inspect_fst Let_def
                options_of_def trace_to_attach_def trace_to_stream_def streamer_of_def
                signal_setup_def signal_release_def resize_events_def split del: if_split cong: if_cong)
          next
            case (Some err)
            with Returned c tty att re show ?thesis
              by (simp add: RunAttach_def split_beta inspect_fst Let_def
                options_of_def trace_to_attach_def trace_to_stream_def streamer_of_def
                signal_setup_def signal_release_def resize_events_def split del: if_split cong: if_cong)
          qed
        qed
        show ?thesis
        proof (cases "stream cli (streamer_of cli opts c conn)")
          case Blocked
          with run have "RunAttach cli ctx cid opts = (trace_to_stream cli ctx cid opts c conn, Blocked)"
            by simp
          with c tty att re Blocked show ?thesis by (rule that(8))
        next
          case (Returned streamErr)
          note ret = Returned
          show ?thesis
          proof (cases "\<exists>err. streamErr = Some err \<and> \<not> errors_Is err ContextCanceled")
            case True
            then obtain err where err: "stream cli (streamer_of cli opts c conn) = Returned (Some err)"
              "\<not> errors_Is err ContextCanceled" using ret by blast
            with run have "RunAttach cli ctx cid opts =
              (trace_to_stream cli ctx cid opts c conn @ Ev_resp_Close conn # signal_release opts c,
               Returned (Some err))"
              by (simp add: return_with_def)
            with c tty att re err show ?thesis by (rule that(5))
          next
            case False
            with ret have st: "stream cli (streamer_of cli opts c conn) = Returned None \<or>
              (\<exists>err. stream cli (streamer_of cli opts c conn) = Returned (Some err)
                 \<and> errors_Is err ContextCanceled)"
              by (cases streamErr) auto
            with run have run': "RunAttach cli ctx cid opts =
               return_with (trace_to_stream cli ctx cid opts c conn)
                  (Ev_resp_Close conn # signal_release opts c) (getExitStatus (ContainerWait cli))"
              by auto
            show ?thesis
            proof (cases "getExitStatus (ContainerWait cli)")
              case (Returned e)
              with run' have "RunAttach cli ctx cid opts =
                (trace_to_stream cli ctx cid opts c conn @ Ev_resp_Close conn # signal_release opts c,
                 Returned e)"
                by (simp add: return_with_def)
              with c tty att re st Returned show ?thesis by (rule that(6))
            next
              case Blocked
              with run' have "RunAttach cli ctx cid opts = (trace_to_stream cli ctx cid opts c conn, Blocked)"
                by (simp add: return_with_def)
              with c tty att re st Blocked show ?thesis by (rule that(7))
            qed
          qed
        qed
      qed
    qed
  qed
qed

subsection \<open>The exit reconciler\<close>

text \<open>
  On a 64-bit target \<^verbatim>\<open>int(result.StatusCode)\<close> is the status code itself. (On a 32-bit
  target the conversion keeps the low 32 bits only.)
\<close>

lemma go_int_64: "(go_int x :: int_t) = x"
  by (simp add: go_int_def)

lemma go_int_32_truncates: "(go_int (2 ^ 32 + 1) :: 32 word) = 1"
  by (simp add: go_int_def)

text \<open>
  C1. \<^verbatim>\<open>getExitStatus\<close> is decided by the channel that resolves first. When the result
  channel resolves first: a result with a recorded error (\<open>Error\<close> not nil) is reported
  as an error with that message; otherwise a non-zero status code is reported as a
  \<^verbatim>\<open>StatusError\<close> that carries exactly that code; otherwise the outcome is success (nil).
  When the error channel resolves first, its error is what is returned.
\<close>

theorem getExitStatus_first_channel_decides:
  "(Error result = Some e \<longrightarrow>
      getExitStatus (ResultFirst result) = Returned (Some (ErrorsNew (Message e))))
   \<and> (Error result = None \<and> StatusCode result \<noteq> 0 \<longrightarrow>
      getExitStatus (ResultFirst result) = Returned (Some (StatusError (StatusCode result))))
   \<and> (Error result = None \<and> StatusCode result = 0 \<longrightarrow>
      getExitStatus (ResultFirst result) = Returned None)
   \<and> getExitStatus (ErrFirst err) = Returned err"
  by (simp add: getExitStatus_def go_int_64)

theorem getExitStatus_first_channel_decides_witness:
  "getExitStatus (ResultFirst \<lparr>Error = Some \<lparr>Message = ''OOM''\<rparr>, StatusCode = 137\<rparr>)
     = Returned (Some (ErrorsNew ''OOM''))
   \<and> getExitStatus (ResultFirst \<lparr>Error = None, StatusCode = 137\<rparr>)
     = Returned (Some (StatusError 137))
   \<and> getExitStatus (ResultFirst \<lparr>Error = None, StatusCode = 0\<rparr>) = Returned None
   \<and> getExitStatus (ErrFirst (Some (OtherError ''EOF''))) = Returned (Some (OtherError ''EOF''))"
  using getExitStatus_first_channel_decides
          [of "\<lparr>Error = Some \<lparr>Message = ''OOM''\<rparr>, StatusCode = 137\<rparr>" "\<lparr>Message = ''OOM''\<rparr>"]
        getExitStatus_first_channel_decides
          [of "\<lparr>Error = None, StatusCode = 137\<rparr>" _ "Some (OtherError ''EOF'')"]
        getExitStatus_first_channel_decides [of "\<lparr>Error = None, StatusCode = 0\<rparr>"]
  by simp

lemmas example_defs = example_cli_def example_ctx_def example_opts_def running_tty_def
  running_plain_def example_streamer_def broken_pipe_cli_def paused_container_def paused_cli_def
  stopped_container_def exited_cli_def example_options_def plain_cli_def override_opts_def
  plain_streamer_def override_options_def override_streamer_def wait_failed_cli_def

lemmas run_defs = RunAttach_def inspectContainerAndCheckState_def return_with_def
  getExitStatus_def resizeTTY_def MonitorTtySize_def resizeTtyTo_def go_int_def Let_def

lemmas shape_defs = trace_to_attach_def trace_to_stream_def signal_setup_def signal_release_def
  resize_events_def resizeTTY_def MonitorTtySize_def resizeTtyTo_def split_beta

lemma getExitStatus_Blocked: "getExitStatus race = Blocked \<longleftrightarrow> race = NeitherReady"
  by (simp add: getExitStatus_def split: chan_race.splits option.splits)

lemma stream_event_of_run:
  assumes "Ev_stream sctx s \<in> set (fst (RunAttach cli ctx cid opts))"
  obtains c conn where
    "snd (inspectContainerAndCheckState cli 0 ctx cid) = Inr c"
    "ContainerAttach cli (options_of cli opts c) = Inr conn"
    "sctx = ctx" "s = streamer_of cli opts c conn"
  using assms
  by (cases rule: RunAttach_cases [of cli ctx cid opts])
     (auto simp: shape_defs split: if_splits)

lemma attach_event_of_run:
  assumes "Ev_ContainerAttach actx aid options \<in> set (fst (RunAttach cli ctx cid opts))"
  obtains c where
    "snd (inspectContainerAndCheckState cli 0 ctx cid) = Inr c"
    "CheckTty cli (\<not> NoStdin opts) (Tty (Config c)) = None"
    "actx = ctx" "aid = cid" "options = options_of cli opts c"
  using assms
  by (cases rule: RunAttach_cases [of cli ctx cid opts])
     (auto simp: shape_defs split: if_splits)

subsection \<open>The order of the calls\<close>

text \<open>
  Starting the wait first does not by itself keep a session from waiting for good: with a
  streamer that never returns, \<^verbatim>\<open>RunAttach\<close> blocks at line 150 although the wait result
  is ready.
\<close>

lemma stuck_streamer_hangs:
  "ContainerWait (example_cli\<lparr>stream := (\<lambda>s. Blocked)\<rparr>) \<noteq> NeitherReady
   \<and> snd (RunAttach (example_cli\<lparr>stream := (\<lambda>s. Blocked)\<rparr>) example_ctx ''c1'' example_opts) = Blocked"
  by (simp add: run_defs example_defs)

text \<open>
  C2, as stated, fails where it says that a process that exits during setup is reported
  through the wait result. A container that stops between the first validation and the
  re-validation after the attach (\<open>exited_cli\<close>), with its exit status 3 ready on the
  result channel: \<^verbatim>\<open>RunAttach\<close> returns the "stopped container" error of lines 130-133,
  not the status error that \<^verbatim>\<open>getExitStatus\<close> would read from the wait.
\<close>

theorem exit_during_setup_not_reported_by_wait:
  "ContainerInspect exited_cli 0 = Inr running_tty
   \<and> ContainerInspect exited_cli 1 = Inr stopped_container
   \<and> \<not> Running (State stopped_container)
   \<and> ContainerWait exited_cli = ResultFirst \<lparr>Error = None, StatusCode = 3\<rparr>
   \<and> getExitStatus (ContainerWait exited_cli) = Returned (Some (StatusError 3))
   \<and> snd (RunAttach exited_cli example_ctx ''c1'' example_opts) =
        Returned (Some (ErrorsNew ''You cannot attach to a stopped container, start it first''))
   \<and> snd (RunAttach exited_cli example_ctx ''c1'' example_opts)
        \<noteq> getExitStatus (ContainerWait exited_cli)"
  by (simp add: run_defs example_defs)

text \<open>
  C2, amended. In every invocation the wait request is the first call \<^verbatim>\<open>RunAttach\<close>
  makes, on \<^verbatim>\<open>context.WithoutCancel(ctx)\<close>; the inspect of the pre-flight validation is
  the second; every other call, the attach and the streamer among them, comes later, and
  no second wait is issued. A process that exits during setup does not leave the session
  waiting: when the first validation fails, or the re-validation after a successful
  attach fails, \<^verbatim>\<open>RunAttach\<close> returns the error of that validation (and not the wait
  result); when the streamer was called and ended without error or with the cancellation
  error, what \<^verbatim>\<open>RunAttach\<close> reports is what \<^verbatim>\<open>getExitStatus\<close> reads from the channels of
  that wait; and when one of the two channels delivers and the streamer returns,
  \<^verbatim>\<open>RunAttach\<close> returns.
\<close>

theorem RunAttach_wait_started_first:
  "(\<exists>rest. fst (RunAttach cli ctx cid opts) =
        Ev_ContainerWait (WithoutCancel ctx) cid '''' # Ev_ContainerInspect ctx cid # rest
      \<and> (\<forall>e \<in> set rest. \<not> is_ContainerWait e))
   \<and> (\<forall>err. snd (inspectContainerAndCheckState cli 0 ctx cid) = Inl err \<longrightarrow>
        snd (RunAttach cli ctx cid opts) = Returned (Some err))
   \<and> (\<forall>actx aid options conn err.
        Ev_ContainerAttach actx aid options \<in> set (fst (RunAttach cli ctx cid opts))
        \<and> ContainerAttach cli options = Inr conn
        \<and> snd (inspectContainerAndCheckState cli 1 ctx cid) = Inl err \<longrightarrow>
        snd (RunAttach cli ctx cid opts) = Returned (Some err))
   \<and> (\<forall>sctx s.
        Ev_stream sctx s \<in> set (fst (RunAttach cli ctx cid opts))
        \<and> (stream cli s = Returned None
            \<or> (\<exists>err. stream cli s = Returned (Some err) \<and> errors_Is err ContextCanceled)) \<longrightarrow>
        snd (RunAttach cli ctx cid opts) = getExitStatus (ContainerWait cli))
   \<and> (ContainerWait cli \<noteq> NeitherReady \<and> (\<forall>s. stream cli s \<noteq> Blocked) \<longrightarrow>
        (\<exists>e. snd (RunAttach cli ctx cid opts) = Returned e))"
proof -
  have order: "\<exists>rest. fst (RunAttach cli ctx cid opts) =
        Ev_ContainerWait (WithoutCancel ctx) cid '''' # Ev_ContainerInspect ctx cid # rest
      \<and> (\<forall>e \<in> set rest. \<not> is_ContainerWait e)"
    by (cases rule: RunAttach_cases [of cli ctx cid opts]) (auto simp: shape_defs)
  have first: "snd (RunAttach cli ctx cid opts) = Returned (Some err)"
    if "snd (inspectContainerAndCheckState cli 0 ctx cid) = Inl err" for err
    using that
    by (cases rule: RunAttach_cases [of cli ctx cid opts]) auto
  have second: "snd (RunAttach cli ctx cid opts) = Returned (Some err)"
    if "Ev_ContainerAttach actx aid options \<in> set (fst (RunAttach cli ctx cid opts))"
      "ContainerAttach cli options = Inr conn"
      "snd (inspectContainerAndCheckState cli 1 ctx cid) = Inl err"
    for actx aid options conn err
    using that
    by (cases rule: RunAttach_cases [of cli ctx cid opts])
       (auto simp: shape_defs split: if_splits)
  have reported: "snd (RunAttach cli ctx cid opts) = getExitStatus (ContainerWait cli)"
    if "Ev_stream sctx s \<in> set (fst (RunAttach cli ctx cid opts))"
      "stream cli s = Returned None
       \<or> (\<exists>err. stream cli s = Returned (Some err) \<and> errors_Is err ContextCanceled)"
    for sctx s
    using that
    by (cases rule: RunAttach_cases [of cli ctx cid opts])
       (auto simp: shape_defs split: if_splits)
  have returns: "\<exists>e. snd (RunAttach cli ctx cid opts) = Returned e"
    if "ContainerWait cli \<noteq> NeitherReady" "\<forall>s. stream cli s \<noteq> Blocked"
    using that
    by (cases rule: RunAttach_cases [of cli ctx cid opts])
       (auto simp: getExitStatus_Blocked)
  from order first second reported returns show ?thesis by blast
qed

theorem RunAttach_wait_started_first_witness:
  "snd (inspectContainerAndCheckState paused_cli 0 example_ctx ''c1'') =
        Inl (ErrorsNew ''You cannot attach to a paused container, unpause it first'')
   \<and> snd (RunAttach paused_cli example_ctx ''c1'' example_opts) =
        Returned (Some (ErrorsNew ''You cannot attach to a paused container, unpause it first''))
   \<and> Ev_ContainerAttach example_ctx ''c1'' example_options
        \<in> set (fst (RunAttach exited_cli example_ctx ''c1'' example_opts))
   \<and> ContainerAttach exited_cli example_options = Inr 7
   \<and> snd (inspectContainerAndCheckState exited_cli 1 example_ctx ''c1'') =
        Inl (ErrorsNew ''You cannot attach to a stopped container, start it first'')
   \<and> snd (RunAttach exited_cli example_ctx ''c1'' example_opts) =
        Returned (Some (ErrorsNew ''You cannot attach to a stopped container, start it first''))
   \<and> Ev_stream example_ctx example_streamer
        \<in> set (fst (RunAttach example_cli example_ctx ''c1'' example_opts))
   \<and> stream example_cli example_streamer = Returned (Some ContextCanceled)
   \<and> errors_Is ContextCanceled ContextCanceled
   \<and> snd (RunAttach example_cli example_ctx ''c1'' example_opts)
        = getExitStatus (ContainerWait example_cli)
   \<and> ContainerWait example_cli \<noteq> NeitherReady
   \<and> (\<forall>s. stream example_cli s \<noteq> Blocked)
   \<and> (\<exists>e. snd (RunAttach example_cli example_ctx ''c1'' example_opts) = Returned e)
   \<and> (\<exists>rest. fst (RunAttach example_cli example_ctx ''c1'' example_opts) =
        Ev_ContainerWait (WithoutCancel example_ctx) ''c1''
          '''' # Ev_ContainerInspect example_ctx ''c1'' # rest)"
proof -
  have v1: "snd (inspectContainerAndCheckState paused_cli 0 example_ctx ''c1'') =
        Inl (ErrorsNew ''You cannot attach to a paused container, unpause it first'')"
    by (simp add: inspectContainerAndCheckState_def example_defs)
  have a2: "Ev_ContainerAttach example_ctx ''c1'' example_options
        \<in> set (fst (RunAttach exited_cli example_ctx ''c1'' example_opts))"
    by (simp add: run_defs example_defs)
  have ok2: "ContainerAttach exited_cli example_options = Inr 7"
    by (simp add: example_defs)
  have v2: "snd (inspectContainerAndCheckState exited_cli 1 example_ctx ''c1'') =
        Inl (ErrorsNew ''You cannot attach to a stopped container, start it first'')"
    by (simp add: inspectContainerAndCheckState_def example_defs)
  have s3: "Ev_stream example_ctx example_streamer
        \<in> set (fst (RunAttach example_cli example_ctx ''c1'' example_opts))"
    by (simp add: run_defs example_defs)
  have r3: "stream example_cli example_streamer = Returned (Some ContextCanceled)"
    by (simp add: example_defs)
  have is_c: "errors_Is ContextCanceled ContextCanceled"
    by simp
  have ready: "ContainerWait example_cli \<noteq> NeitherReady"
    by (simp add: example_defs)
  have live: "\<forall>s. stream example_cli s \<noteq> Blocked"
    by (simp add: example_defs)
  from RunAttach_wait_started_first [of paused_cli example_ctx "''c1''" example_opts] v1
  have c1: "snd (RunAttach paused_cli example_ctx ''c1'' example_opts) =
        Returned (Some (ErrorsNew ''You cannot attach to a paused container, unpause it first''))"
    by blast
  from RunAttach_wait_started_first [of exited_cli example_ctx "''c1''" example_opts] a2 ok2 v2
  have c2: "snd (RunAttach exited_cli example_ctx ''c1'' example_opts) =
        Returned (Some (ErrorsNew ''You cannot attach to a stopped container, start it first''))"
    by blast
  from RunAttach_wait_started_first [of example_cli example_ctx "''c1''" example_opts] s3 r3 is_c
  have c3: "snd (RunAttach example_cli example_ctx ''c1'' example_opts)
        = getExitStatus (ContainerWait example_cli)"
    by blast
  from RunAttach_wait_started_first [of example_cli example_ctx "''c1''" example_opts] ready live
  have c4: "(\<exists>e. snd (RunAttach example_cli example_ctx ''c1'' example_opts) = Returned e)
      \<and> (\<exists>rest. fst (RunAttach example_cli example_ctx ''c1'' example_opts) =
        Ev_ContainerWait (WithoutCancel example_ctx) ''c1''
          '''' # Ev_ContainerInspect example_ctx ''c1'' # rest)"
    by blast
  from v1 c1 a2 ok2 v2 c2 s3 r3 is_c c3 ready live c4 show ?thesis by simp
qed

subsection \<open>Cancellation of the streamer\<close>

text \<open>
  C3. When the streamer was called and returned an error: if the error is the
  cancellation error (\<^verbatim>\<open>errors.Is(err, context.Canceled)\<close>), \<^verbatim>\<open>RunAttach\<close> does not
  return it and its outcome is that of \<^verbatim>\<open>getExitStatus\<close> on the channels of the wait;
  any other error of the streamer is what \<^verbatim>\<open>RunAttach\<close> returns.
\<close>

theorem RunAttach_cancellation_suppressed:
  assumes "Ev_stream sctx s \<in> set (fst (RunAttach cli ctx cid opts))"
    and "stream cli s = Returned (Some err)"
  shows "(errors_Is err ContextCanceled \<longrightarrow>
            snd (RunAttach cli ctx cid opts) = getExitStatus (ContainerWait cli))
         \<and> (\<not> errors_Is err ContextCanceled \<longrightarrow>
            snd (RunAttach cli ctx cid opts) = Returned (Some err))"
  using assms
  by (cases rule: RunAttach_cases [of cli ctx cid opts])
     (auto simp: shape_defs split: if_splits)

theorem RunAttach_cancellation_suppressed_witness:
  "Ev_stream example_ctx example_streamer
      \<in> set (fst (RunAttach example_cli example_ctx ''c1'' example_opts))
   \<and> stream example_cli example_streamer = Returned (Some ContextCanceled)
   \<and> errors_Is ContextCanceled ContextCanceled
   \<and> snd (RunAttach example_cli example_ctx ''c1'' example_opts)
        = getExitStatus (ContainerWait example_cli)
   \<and> Ev_stream example_ctx example_streamer
      \<in> set (fst (RunAttach broken_pipe_cli example_ctx ''c1'' example_opts))
   \<and> stream broken_pipe_cli example_streamer = Returned (Some (OtherError ''broken pipe''))
   \<and> \<not> errors_Is (OtherError ''broken pipe'') ContextCanceled
   \<and> snd (RunAttach broken_pipe_cli example_ctx ''c1'' example_opts)
        = Returned (Some (OtherError ''broken pipe''))"
proof -
  have s1: "Ev_stream example_ctx example_streamer
      \<in> set (fst (RunAttach example_cli example_ctx ''c1'' example_opts))"
    by (simp add: run_defs example_defs)
  have r1: "stream example_cli example_streamer = Returned (Some ContextCanceled)"
    by (simp add: example_defs)
  have s2: "Ev_stream example_ctx example_streamer
      \<in> set (fst (RunAttach broken_pipe_cli example_ctx ''c1'' example_opts))"
    by (simp add: run_defs example_defs)
  have r2: "stream broken_pipe_cli example_streamer = Returned (Some (OtherError ''broken pipe''))"
    by (simp add: example_defs)
  from RunAttach_cancellation_suppressed [OF s1 r1]
  have c1: "snd (RunAttach example_cli example_ctx ''c1'' example_opts)
        = getExitStatus (ContainerWait example_cli)"
    by simp
  from RunAttach_cancellation_suppressed [OF s2 r2]
  have c2: "snd (RunAttach broken_pipe_cli example_ctx ''c1'' example_opts)
        = Returned (Some (OtherError ''broken pipe''))"
    by simp
  from s1 r1 c1 s2 r2 c2 show ?thesis by simp
qed

subsection \<open>Pre-flight validation\<close>

text \<open>
  C4. For an inspected container that is not running, or is paused, or is restarting,
  \<^verbatim>\<open>inspectContainerAndCheckState\<close> returns an error whose message names the condition
  (the three messages differ; the checks are made in this order), \<^verbatim>\<open>RunAttach\<close> returns
  that error, and its trace has no attach call and no call of the streamer. For a running
  container that is neither paused nor restarting the validation returns the inspected
  container.
\<close>

theorem validation_rejects_unattachable:
  assumes "ContainerInspect cli 0 = Inr c"
  shows "(\<not> Running (State c) \<longrightarrow>
            snd (inspectContainerAndCheckState cli 0 ctx cid) =
              Inl (ErrorsNew ''You cannot attach to a stopped container, start it first''))
       \<and> (Running (State c) \<and> Paused (State c) \<longrightarrow>
            snd (inspectContainerAndCheckState cli 0 ctx cid) =
              Inl (ErrorsNew ''You cannot attach to a paused container, unpause it first''))
       \<and> (Running (State c) \<and> \<not> Paused (State c) \<and> Restarting (State c) \<longrightarrow>
            snd (inspectContainerAndCheckState cli 0 ctx cid) =
              Inl (ErrorsNew ''You cannot attach to a restarting container, wait until it is running''))
       \<and> (Running (State c) \<and> \<not> Paused (State c) \<and> \<not> Restarting (State c) \<longrightarrow>
            snd (inspectContainerAndCheckState cli 0 ctx cid) = Inr c)
       \<and> distinct [''You cannot attach to a stopped container, start it first'',
                    ''You cannot attach to a paused container, unpause it first'',
                    ''You cannot attach to a restarting container, wait until it is running'']
       \<and> (\<not> Running (State c) \<or> Paused (State c) \<or> Restarting (State c) \<longrightarrow>
            (\<exists>err. snd (inspectContainerAndCheckState cli 0 ctx cid) = Inl err
               \<and> snd (RunAttach cli ctx cid opts) = Returned (Some err))
            \<and> (\<forall>e \<in> set (fst (RunAttach cli ctx cid opts)).
                  \<not> is_ContainerAttach e \<and> \<not> is_stream e))"
proof -
  have check: "snd (inspectContainerAndCheckState cli 0 ctx cid) =
      (if \<not> Running (State c) then
         Inl (ErrorsNew ''You cannot attach to a stopped container, start it first'')
       else if Paused (State c) then
         Inl (ErrorsNew ''You cannot attach to a paused container, unpause it first'')
       else if Restarting (State c) then
         Inl (ErrorsNew ''You cannot attach to a restarting container, wait until it is running'')
       else Inr c)"
    using assms by (simp add: inspectContainerAndCheckState_def)
  have run: "RunAttach cli ctx cid opts =
      ([Ev_ContainerWait (WithoutCancel ctx) cid '''', Ev_ContainerInspect ctx cid], Returned (Some err))"
    if "snd (inspectContainerAndCheckState cli 0 ctx cid) = Inl err" for err
    using that by (simp add: RunAttach_def return_with_def split_beta inspect_fst)
  have rejected: "(\<exists>err. snd (inspectContainerAndCheckState cli 0 ctx cid) = Inl err
               \<and> snd (RunAttach cli ctx cid opts) = Returned (Some err))
            \<and> (\<forall>e \<in> set (fst (RunAttach cli ctx cid opts)).
                  \<not> is_ContainerAttach e \<and> \<not> is_stream e)"
    if bad: "\<not> Running (State c) \<or> Paused (State c) \<or> Restarting (State c)"
  proof -
    from bad check obtain err where
      err: "snd (inspectContainerAndCheckState cli 0 ctx cid) = Inl err"
      by (auto split: if_splits)
    from run [OF err] err show ?thesis by simp
  qed
  from check rejected show ?thesis by simp
qed

theorem validation_rejects_unattachable_witness:
  "ContainerInspect paused_cli 0 = Inr paused_container
   \<and> Running (State paused_container) \<and> Paused (State paused_container)
   \<and> snd (inspectContainerAndCheckState paused_cli 0 example_ctx ''c1'') =
        Inl (ErrorsNew ''You cannot attach to a paused container, unpause it first'')
   \<and> snd (RunAttach paused_cli example_ctx ''c1'' example_opts) =
        Returned (Some (ErrorsNew ''You cannot attach to a paused container, unpause it first''))
   \<and> ContainerInspect example_cli 0 = Inr running_tty
   \<and> Running (State running_tty) \<and> \<not> Paused (State running_tty)
   \<and> \<not> Restarting (State running_tty)
   \<and> snd (inspectContainerAndCheckState example_cli 0 example_ctx ''c1'') = Inr running_tty"
proof -
  have i1: "ContainerInspect paused_cli 0 = Inr paused_container"
    by (simp add: example_defs)
  have st1: "Running (State paused_container) \<and> Paused (State paused_container)"
    by (simp add: example_defs)
  have i2: "ContainerInspect example_cli 0 = Inr running_tty"
    by (simp add: example_defs)
  have st2: "Running (State running_tty) \<and> \<not> Paused (State running_tty)
      \<and> \<not> Restarting (State running_tty)"
    by (simp add: example_defs)
  from validation_rejects_unattachable [OF i1, of example_ctx "''c1''" example_opts] st1
  have c1: "snd (inspectContainerAndCheckState paused_cli 0 example_ctx ''c1'') =
        Inl (ErrorsNew ''You cannot attach to a paused container, unpause it first'')
     \<and> snd (RunAttach paused_cli example_ctx ''c1'' example_opts) =
        Returned (Some (ErrorsNew ''You cannot attach to a paused container, unpause it first''))"
    by auto
  from validation_rejects_unattachable [OF i2, of example_ctx "''c1''" example_opts] st2
  have c2: "snd (inspectContainerAndCheckState example_cli 0 example_ctx ''c1'') = Inr running_tty"
    by blast
  from i1 st1 c1 i2 st2 c2 show ?thesis by simp
qed

subsection \<open>Re-validation after the attach call\<close>

text \<open>
  C5. Whenever the attach call was made and succeeded, the call that follows it at once
  is a second inspect of the container, checked by the same
  \<^verbatim>\<open>inspectContainerAndCheckState\<close>. If this second validation fails, \<^verbatim>\<open>RunAttach\<close>
  returns its error, and neither a resize request nor the call of the streamer is in the
  trace; a container found stopped by the second inspect gives the "stopped container"
  error.
\<close>

theorem RunAttach_revalidates_after_attach:
  assumes "Ev_ContainerAttach actx aid options \<in> set (fst (RunAttach cli ctx cid opts))"
    and "ContainerAttach cli options = Inr conn"
  shows "event_after is_ContainerAttach (fst (RunAttach cli ctx cid opts))
           = Some (Ev_ContainerInspect ctx cid)
       \<and> (\<forall>err. snd (inspectContainerAndCheckState cli 1 ctx cid) = Inl err \<longrightarrow>
             snd (RunAttach cli ctx cid opts) = Returned (Some err)
             \<and> (\<forall>e \<in> set (fst (RunAttach cli ctx cid opts)).
                   \<not> is_stream e \<and> \<not> is_ContainerResize e))
       \<and> (\<forall>c'. ContainerInspect cli 1 = Inr c' \<and> \<not> Running (State c') \<longrightarrow>
             snd (RunAttach cli ctx cid opts) =
               Returned (Some (ErrorsNew ''You cannot attach to a stopped container, start it first'')))"
proof -
  from assms(1) obtain c where c:
    "snd (inspectContainerAndCheckState cli 0 ctx cid) = Inr c"
    "options = options_of cli opts c"
    by (rule attach_event_of_run)
  have stopped: "snd (inspectContainerAndCheckState cli 1 ctx cid) =
      Inl (ErrorsNew ''You cannot attach to a stopped container, start it first'')"
    if "ContainerInspect cli 1 = Inr c'" "\<not> Running (State c')" for c'
    using that by (simp add: inspectContainerAndCheckState_def)
  show ?thesis
    using c assms stopped
    by (cases rule: RunAttach_cases [of cli ctx cid opts])
       (auto simp: shape_defs split: if_splits)
qed

theorem RunAttach_revalidates_after_attach_witness:
  "Ev_ContainerAttach example_ctx ''c1'' example_options
      \<in> set (fst (RunAttach exited_cli example_ctx ''c1'' example_opts))
   \<and> ContainerAttach exited_cli example_options = Inr 7
   \<and> event_after is_ContainerAttach (fst (RunAttach exited_cli example_ctx ''c1'' example_opts))
        = Some (Ev_ContainerInspect example_ctx ''c1'')
   \<and> ContainerInspect exited_cli 1 = Inr stopped_container
   \<and> \<not> Running (State stopped_container)
   \<and> snd (RunAttach exited_cli example_ctx ''c1'' example_opts) =
        Returned (Some (ErrorsNew ''You cannot attach to a stopped container, start it first''))"
proof -
  have a: "Ev_ContainerAttach example_ctx ''c1'' example_options
      \<in> set (fst (RunAttach exited_cli example_ctx ''c1'' example_opts))"
    by (simp add: run_defs example_defs)
  have ok: "ContainerAttach exited_cli example_options = Inr 7"
    by (simp add: example_defs)
  have i: "ContainerInspect exited_cli 1 = Inr stopped_container"
    by (simp add: example_defs)
  have st: "\<not> Running (State stopped_container)"
    by (simp add: example_defs)
  from RunAttach_revalidates_after_attach [OF a ok] i st
  have "event_after is_ContainerAttach (fst (RunAttach exited_cli example_ctx ''c1'' example_opts))
        = Some (Ev_ContainerInspect example_ctx ''c1'')
     \<and> snd (RunAttach exited_cli example_ctx ''c1'' example_opts) =
        Returned (Some (ErrorsNew ''You cannot attach to a stopped container, start it first''))"
    by blast
  with a ok i st show ?thesis by simp
qed

subsection \<open>The resize at session start\<close>

text \<open>
  C6. In a run that reaches the streamer, resize requests are issued if and only if the
  container has a TTY and the output of the CLI is a terminal, and then they are exactly
  two, in this order: the measured height and width plus one each, then the size as
  measured (by \<^verbatim>\<open>MonitorTtySize\<close>). For a terminal of 24 by 80 the requests are (25, 81)
  and (24, 80).
\<close>

theorem resize_on_session_start:
  assumes "ContainerInspect cli 0 = Inr c"
    and "\<exists>e \<in> set (fst (RunAttach cli ctx cid opts)). is_stream e"
  shows "filter is_ContainerResize (fst (RunAttach cli ctx cid opts)) =
           (if Tty (Config c) \<and> IsTerminal cli
            then [Ev_ContainerResize ctx cid (fst (GetTtySize cli 0) + 1) (snd (GetTtySize cli 0) + 1),
                  Ev_ContainerResize ctx cid (fst (GetTtySize cli 1)) (snd (GetTtySize cli 1))]
            else [])"
  using assms
  by (cases rule: RunAttach_cases [of cli ctx cid opts])
     (auto simp: shape_defs inspect_Inr split: if_splits)

theorem resize_on_session_start_witness:
  "ContainerInspect example_cli 0 = Inr running_tty
   \<and> (\<exists>e \<in> set (fst (RunAttach example_cli example_ctx ''c1'' example_opts)). is_stream e)
   \<and> Tty (Config running_tty) \<and> IsTerminal example_cli
   \<and> GetTtySize example_cli 0 = (24, 80) \<and> GetTtySize example_cli 1 = (24, 80)
   \<and> filter is_ContainerResize (fst (RunAttach example_cli example_ctx ''c1'' example_opts)) =
        [Ev_ContainerResize example_ctx ''c1'' 25 81, Ev_ContainerResize example_ctx ''c1'' 24 80]
   \<and> ContainerInspect plain_cli 0 = Inr running_plain
   \<and> (\<exists>e \<in> set (fst (RunAttach plain_cli example_ctx ''c1'' example_opts)). is_stream e)
   \<and> \<not> Tty (Config running_plain)
   \<and> filter is_ContainerResize (fst (RunAttach plain_cli example_ctx ''c1'' example_opts)) = []"
proof -
  have i1: "ContainerInspect example_cli 0 = Inr running_tty"
    by (simp add: example_defs)
  have s1: "\<exists>e \<in> set (fst (RunAttach example_cli example_ctx ''c1'' example_opts)). is_stream e"
    by (simp add: run_defs example_defs)
  have t1: "Tty (Config running_tty) \<and> IsTerminal example_cli
      \<and> GetTtySize example_cli 0 = (24, 80) \<and> GetTtySize example_cli 1 = (24, 80)"
    by (simp add: example_defs)
  have i2: "ContainerInspect plain_cli 0 = Inr running_plain"
    by (simp add: example_defs)
  have s2: "\<exists>e \<in> set (fst (RunAttach plain_cli example_ctx ''c1'' example_opts)). is_stream e"
    by (simp add: run_defs example_defs)
  have t2: "\<not> Tty (Config running_plain)"
    by (simp add: example_defs)
  from resize_on_session_start [OF i1 s1] t1
  have c1: "filter is_ContainerResize (fst (RunAttach example_cli example_ctx ''c1'' example_opts)) =
        [Ev_ContainerResize example_ctx ''c1'' 25 81, Ev_ContainerResize example_ctx ''c1'' 24 80]"
    by simp
  from resize_on_session_start [OF i2 s2] t2
  have c2: "filter is_ContainerResize (fst (RunAttach plain_cli example_ctx ''c1'' example_opts)) = []"
    by simp
  from i1 s1 t1 c1 i2 s2 t2 c2 show ?thesis by simp
qed

subsection \<open>The signal forwarder\<close>

text \<open>
  C7. In a run whose pre-flight validation and TTY check pass, the signal forwarder is
  started if and only if \<open>Proxy\<close> is set and the container has no TTY. It is started on
  \<^verbatim>\<open>context.WithoutCancel(ctx)\<close>, a context that no cancellation reaches. When it was
  started, the signals were subscribed to once, and when \<^verbatim>\<open>RunAttach\<close> returns, the
  deferred \<^verbatim>\<open>signal.StopCatch\<close> is the last call made, and the only one. When it was
  not started, there is neither a subscription nor a release.
\<close>

theorem signal_forwarder_lifetime:
  assumes "snd (inspectContainerAndCheckState cli 0 ctx cid) = Inr c"
    and "CheckTty cli (\<not> NoStdin opts) (Tty (Config c)) = None"
  shows "((\<exists>e \<in> set (fst (RunAttach cli ctx cid opts)). is_ForwardAllSignals e)
            \<longleftrightarrow> Proxy opts \<and> \<not> Tty (Config c))
       \<and> (\<forall>fctx fid. Ev_go_ForwardAllSignals fctx fid \<in> set (fst (RunAttach cli ctx cid opts)) \<longrightarrow>
             fctx = WithoutCancel ctx \<and> fid = cid \<and> (\<forall>fired. \<not> ctx_canceled fired fctx))
       \<and> (Proxy opts \<and> \<not> Tty (Config c) \<longrightarrow>
             filter is_notifyAllSignals (fst (RunAttach cli ctx cid opts)) = [Ev_notifyAllSignals]
             \<and> (\<forall>r. snd (RunAttach cli ctx cid opts) = Returned r \<longrightarrow>
                   last (fst (RunAttach cli ctx cid opts)) = Ev_StopCatch
                   \<and> filter is_StopCatch (fst (RunAttach cli ctx cid opts)) = [Ev_StopCatch]))
       \<and> (\<not> (Proxy opts \<and> \<not> Tty (Config c)) \<longrightarrow>
             (\<forall>e \<in> set (fst (RunAttach cli ctx cid opts)).
                \<not> is_notifyAllSignals e \<and> \<not> is_StopCatch e))"
  using assms
  by (cases rule: RunAttach_cases [of cli ctx cid opts])
     (auto simp: shape_defs split: if_splits)

theorem signal_forwarder_lifetime_witness:
  "snd (inspectContainerAndCheckState plain_cli 0 example_ctx ''c1'') = Inr running_plain
   \<and> CheckTty plain_cli (\<not> NoStdin example_opts) (Tty (Config running_plain)) = None
   \<and> Proxy example_opts \<and> \<not> Tty (Config running_plain)
   \<and> Ev_go_ForwardAllSignals (WithoutCancel example_ctx) ''c1''
        \<in> set (fst (RunAttach plain_cli example_ctx ''c1'' example_opts))
   \<and> (\<exists>e \<in> set (fst (RunAttach plain_cli example_ctx ''c1'' example_opts)). is_ForwardAllSignals e)
   \<and> snd (RunAttach plain_cli example_ctx ''c1'' example_opts) = Returned (Some (StatusError 3))
   \<and> last (fst (RunAttach plain_cli example_ctx ''c1'' example_opts)) = Ev_StopCatch
   \<and> snd (inspectContainerAndCheckState example_cli 0 example_ctx ''c1'') = Inr running_tty
   \<and> CheckTty example_cli (\<not> NoStdin example_opts) (Tty (Config running_tty)) = None
   \<and> Tty (Config running_tty)
   \<and> \<not> (\<exists>e \<in> set (fst (RunAttach example_cli example_ctx ''c1'' example_opts)). is_ForwardAllSignals e)"
proof -
  have i1: "snd (inspectContainerAndCheckState plain_cli 0 example_ctx ''c1'') = Inr running_plain"
    by (simp add: inspectContainerAndCheckState_def example_defs)
  have t1: "CheckTty plain_cli (\<not> NoStdin example_opts) (Tty (Config running_plain)) = None"
    by (simp add: example_defs)
  have p1: "Proxy example_opts \<and> \<not> Tty (Config running_plain)"
    by (simp add: example_defs)
  have f1: "Ev_go_ForwardAllSignals (WithoutCancel example_ctx) ''c1''
        \<in> set (fst (RunAttach plain_cli example_ctx ''c1'' example_opts))"
    by (simp add: run_defs example_defs)
  have r1: "snd (RunAttach plain_cli example_ctx ''c1'' example_opts) = Returned (Some (StatusError 3))"
    by (simp add: run_defs example_defs)
  have i2: "snd (inspectContainerAndCheckState example_cli 0 example_ctx ''c1'') = Inr running_tty"
    by (simp add: inspectContainerAndCheckState_def example_defs)
  have t2: "CheckTty example_cli (\<not> NoStdin example_opts) (Tty (Config running_tty)) = None"
    by (simp add: example_defs)
  have p2: "Tty (Config running_tty)"
    by (simp add: example_defs)
  from signal_forwarder_lifetime [OF i1 t1] p1 r1
  have c1: "(\<exists>e \<in> set (fst (RunAttach plain_cli example_ctx ''c1'' example_opts)). is_ForwardAllSignals e)
      \<and> last (fst (RunAttach plain_cli example_ctx ''c1'' example_opts)) = Ev_StopCatch"
    by blast
  from signal_forwarder_lifetime [OF i2 t2] p2
  have c2: "\<not> (\<exists>e \<in> set (fst (RunAttach example_cli example_ctx ''c1'' example_opts)). is_ForwardAllSignals e)"
    by blast
  from i1 t1 p1 f1 r1 c1 i2 t2 p2 c2 show ?thesis by simp
qed

subsection \<open>The input stream\<close>

text \<open>
  C8. The attach call asks for stdin exactly when \<open>NoStdin\<close> is unset and the inspected
  container has its stdin open; the streamer is handed the input of the CLI in exactly
  that case, and no input stream (nil) otherwise.
\<close>

theorem input_stream_iff_stdin_attached:
  assumes "ContainerInspect cli 0 = Inr c"
  shows "(\<forall>actx aid options.
            Ev_ContainerAttach actx aid options \<in> set (fst (RunAttach cli ctx cid opts)) \<longrightarrow>
              Stdin options = (\<not> NoStdin opts \<and> OpenStdin (Config c)))
       \<and> (\<forall>sctx s.
            Ev_stream sctx s \<in> set (fst (RunAttach cli ctx cid opts)) \<longrightarrow>
              inputStream s =
                (if \<not> NoStdin opts \<and> OpenStdin (Config c) then Some cli_In else None))"
proof (intro conjI allI impI)
  fix actx aid options
  assume "Ev_ContainerAttach actx aid options \<in> set (fst (RunAttach cli ctx cid opts))"
  then obtain c0 where "snd (inspectContainerAndCheckState cli 0 ctx cid) = Inr c0"
    "options = options_of cli opts c0"
    by (rule attach_event_of_run)
  with assms show "Stdin options = (\<not> NoStdin opts \<and> OpenStdin (Config c))"
    by (simp add: inspect_Inr options_of_def)
next
  fix sctx s
  assume "Ev_stream sctx s \<in> set (fst (RunAttach cli ctx cid opts))"
  then obtain c0 conn where "snd (inspectContainerAndCheckState cli 0 ctx cid) = Inr c0"
    "s = streamer_of cli opts c0 conn"
    by (rule stream_event_of_run)
  with assms show "inputStream s =
      (if \<not> NoStdin opts \<and> OpenStdin (Config c) then Some cli_In else None)"
    by (simp add: inspect_Inr options_of_def streamer_of_def)
qed

theorem input_stream_iff_stdin_attached_witness:
  "ContainerInspect example_cli 0 = Inr running_tty
   \<and> Ev_ContainerAttach example_ctx ''c1'' example_options
        \<in> set (fst (RunAttach example_cli example_ctx ''c1'' example_opts))
   \<and> Ev_stream example_ctx example_streamer
        \<in> set (fst (RunAttach example_cli example_ctx ''c1'' example_opts))
   \<and> \<not> NoStdin example_opts \<and> OpenStdin (Config running_tty)
   \<and> Stdin example_options
   \<and> inputStream example_streamer = Some cli_In
   \<and> ContainerInspect plain_cli 0 = Inr running_plain
   \<and> Ev_stream example_ctx plain_streamer
        \<in> set (fst (RunAttach plain_cli example_ctx ''c1'' example_opts))
   \<and> \<not> OpenStdin (Config running_plain)
   \<and> inputStream plain_streamer = None"
proof -
  have i1: "ContainerInspect example_cli 0 = Inr running_tty"
    by (simp add: example_defs)
  have a1: "Ev_ContainerAttach example_ctx ''c1'' example_options
        \<in> set (fst (RunAttach example_cli example_ctx ''c1'' example_opts))"
    by (simp add: run_defs example_defs)
  have s1: "Ev_stream example_ctx example_streamer
        \<in> set (fst (RunAttach example_cli example_ctx ''c1'' example_opts))"
    by (simp add: run_defs example_defs)
  have o1: "\<not> NoStdin example_opts \<and> OpenStdin (Config running_tty)"
    by (simp add: example_defs)
  have i2: "ContainerInspect plain_cli 0 = Inr running_plain"
    by (simp add: example_defs)
  have s2: "Ev_stream example_ctx plain_streamer
        \<in> set (fst (RunAttach plain_cli example_ctx ''c1'' example_opts))"
    by (simp add: run_defs example_defs)
  have o2: "\<not> OpenStdin (Config running_plain)"
    by (simp add: example_defs)
  from input_stream_iff_stdin_attached [OF i1, of example_ctx "''c1''" example_opts] a1 s1
  have "Stdin example_options = (\<not> NoStdin example_opts \<and> OpenStdin (Config running_tty))
     \<and> inputStream example_streamer =
         (if \<not> NoStdin example_opts \<and> OpenStdin (Config running_tty) then Some cli_In else None)"
    by blast
  with o1 have c1: "Stdin example_options \<and> inputStream example_streamer = Some cli_In"
    by simp
  from input_stream_iff_stdin_attached [OF i2, of example_ctx "''c1''" example_opts] s2
  have "inputStream plain_streamer =
         (if \<not> NoStdin example_opts \<and> OpenStdin (Config running_plain) then Some cli_In else None)"
    by blast
  with o2 have c2: "inputStream plain_streamer = None"
    by simp
  from i1 a1 s1 o1 c1 i2 s2 o2 c2 show ?thesis by simp
qed

subsection \<open>The detach keys\<close>

text \<open>
  C9. The detach keys of the attach options and of the streamer are the \<open>DetachKeys\<close> of
  the command's options when that string is not empty, and the detach keys of the
  configuration file otherwise.
\<close>

theorem detach_keys_override_or_default:
  "(\<forall>actx aid options.
      Ev_ContainerAttach actx aid options \<in> set (fst (RunAttach cli ctx cid opts)) \<longrightarrow>
        DetachKeys options =
          (if AttachOptions.DetachKeys opts \<noteq> '''' then AttachOptions.DetachKeys opts
           else ConfigFile_DetachKeys cli))
   \<and> (\<forall>sctx s.
      Ev_stream sctx s \<in> set (fst (RunAttach cli ctx cid opts)) \<longrightarrow>
        detachKeys s =
          (if AttachOptions.DetachKeys opts \<noteq> '''' then AttachOptions.DetachKeys opts
           else ConfigFile_DetachKeys cli))"
proof (intro conjI allI impI)
  fix actx aid options
  assume "Ev_ContainerAttach actx aid options \<in> set (fst (RunAttach cli ctx cid opts))"
  then obtain c0 where "options = options_of cli opts c0"
    by (rule attach_event_of_run)
  then show "DetachKeys options =
      (if AttachOptions.DetachKeys opts \<noteq> '''' then AttachOptions.DetachKeys opts
       else ConfigFile_DetachKeys cli)"
    by (simp add: options_of_def)
next
  fix sctx s
  assume "Ev_stream sctx s \<in> set (fst (RunAttach cli ctx cid opts))"
  then obtain c0 conn where "s = streamer_of cli opts c0 conn"
    by (rule stream_event_of_run)
  then show "detachKeys s =
      (if AttachOptions.DetachKeys opts \<noteq> '''' then AttachOptions.DetachKeys opts
       else ConfigFile_DetachKeys cli)"
    by (simp add: options_of_def streamer_of_def)
qed

theorem detach_keys_override_or_default_witness:
  "Ev_ContainerAttach example_ctx ''c1'' example_options
        \<in> set (fst (RunAttach example_cli example_ctx ''c1'' example_opts))
   \<and> Ev_stream example_ctx example_streamer
        \<in> set (fst (RunAttach example_cli example_ctx ''c1'' example_opts))
   \<and> AttachOptions.DetachKeys example_opts = ''''
   \<and> ConfigFile_DetachKeys example_cli = ''ctrl-p,ctrl-q''
   \<and> DetachKeys example_options = ''ctrl-p,ctrl-q''
   \<and> detachKeys example_streamer = ''ctrl-p,ctrl-q''
   \<and> Ev_ContainerAttach example_ctx ''c1'' override_options
        \<in> set (fst (RunAttach example_cli example_ctx ''c1'' override_opts))
   \<and> Ev_stream example_ctx override_streamer
        \<in> set (fst (RunAttach example_cli example_ctx ''c1'' override_opts))
   \<and> AttachOptions.DetachKeys override_opts = ''ctrl-x''
   \<and> DetachKeys override_options = ''ctrl-x''
   \<and> detachKeys override_streamer = ''ctrl-x''"
proof -
  have a1: "Ev_ContainerAttach example_ctx ''c1'' example_options
        \<in> set (fst (RunAttach example_cli example_ctx ''c1'' example_opts))"
    by (simp add: run_defs example_defs)
  have s1: "Ev_stream example_ctx example_streamer
        \<in> set (fst (RunAttach example_cli example_ctx ''c1'' example_opts))"
    by (simp add: run_defs example_defs)
  have k1: "AttachOptions.DetachKeys example_opts = ''''
      \<and> ConfigFile_DetachKeys example_cli = ''ctrl-p,ctrl-q''"
    by (simp add: example_defs)
  have a2: "Ev_ContainerAttach example_ctx ''c1'' override_options
        \<in> set (fst (RunAttach example_cli example_ctx ''c1'' override_opts))"
    by (simp add: run_defs example_defs)
  have s2: "Ev_stream example_ctx override_streamer
        \<in> set (fst (RunAttach example_cli example_ctx ''c1'' override_opts))"
    by (simp add: run_defs example_defs)
  have k2: "AttachOptions.DetachKeys override_opts = ''ctrl-x''"
    by (simp add: example_defs)
  from detach_keys_override_or_default [of example_cli example_ctx "''c1''" example_opts] a1 s1
  have "DetachKeys example_options =
          (if AttachOptions.DetachKeys example_opts \<noteq> '''' then AttachOptions.DetachKeys example_opts
           else ConfigFile_DetachKeys example_cli)
     \<and> detachKeys example_streamer =
          (if AttachOptions.DetachKeys example_opts \<noteq> '''' then AttachOptions.DetachKeys example_opts
           else ConfigFile_DetachKeys example_cli)"
    by blast
  with k1 have c1: "DetachKeys example_options = ''ctrl-p,ctrl-q''
      \<and> detachKeys example_streamer = ''ctrl-p,ctrl-q''"
    by simp
  from detach_keys_override_or_default [of example_cli example_ctx "''c1''" override_opts] a2 s2
  have "DetachKeys override_options =
          (if AttachOptions.DetachKeys override_opts \<noteq> '''' then AttachOptions.DetachKeys override_opts
           else ConfigFile_DetachKeys example_cli)
     \<and> detachKeys override_streamer =
          (if AttachOptions.DetachKeys override_opts \<noteq> '''' then AttachOptions.DetachKeys override_opts
           else ConfigFile_DetachKeys example_cli)"
    by blast
  with k2 have c2: "DetachKeys override_options = ''ctrl-x'' \<and> detachKeys override_streamer = ''ctrl-x''"
    by simp
  from a1 s1 k1 c1 a2 s2 k2 c2 show ?thesis by simp
qed

subsection \<open>The wait and the cancellation\<close>

text \<open>
  C10. The wait request is issued on \<^verbatim>\<open>context.WithoutCancel(ctx)\<close>, which is not
  cancelled whatever cancel functions fire. When the streamer ends with the cancellation
  error, the outcome of \<^verbatim>\<open>RunAttach\<close> is what \<^verbatim>\<open>getExitStatus\<close> reads from the channels
  of that wait: a non-zero exit status arrives as a \<^verbatim>\<open>StatusError\<close> with that code, an
  error of the wait as that error.
\<close>

theorem wait_survives_cancellation:
  "(\<exists>rest. fst (RunAttach cli ctx cid opts) = Ev_ContainerWait (WithoutCancel ctx) cid '''' # rest)
   \<and> (\<forall>fired. \<not> ctx_canceled fired (WithoutCancel ctx))
   \<and> (\<forall>sctx s err.
        Ev_stream sctx s \<in> set (fst (RunAttach cli ctx cid opts))
        \<and> stream cli s = Returned (Some err) \<and> errors_Is err ContextCanceled \<longrightarrow>
          snd (RunAttach cli ctx cid opts) = getExitStatus (ContainerWait cli)
          \<and> (\<forall>code. ContainerWait cli = ResultFirst \<lparr>Error = None, StatusCode = code\<rparr> \<and> code \<noteq> 0 \<longrightarrow>
                snd (RunAttach cli ctx cid opts) = Returned (Some (StatusError code)))
          \<and> (\<forall>werr. ContainerWait cli = ErrFirst werr \<longrightarrow>
                snd (RunAttach cli ctx cid opts) = Returned werr))"
proof -
  have first: "\<exists>rest. fst (RunAttach cli ctx cid opts) = Ev_ContainerWait (WithoutCancel ctx) cid '''' # rest"
    by (cases rule: RunAttach_cases [of cli ctx cid opts]) (auto simp: shape_defs)
  have outcome: "snd (RunAttach cli ctx cid opts) = getExitStatus (ContainerWait cli)"
    if "Ev_stream sctx s \<in> set (fst (RunAttach cli ctx cid opts))"
      "stream cli s = Returned (Some err)" "errors_Is err ContextCanceled" for sctx s err
    using that
    by (cases rule: RunAttach_cases [of cli ctx cid opts])
       (auto simp: shape_defs split: if_splits)
  from first outcome show ?thesis
    by (auto simp: getExitStatus_def go_int_64)
qed

theorem wait_survives_cancellation_witness:
  "ctx_canceled [0] example_ctx
   \<and> \<not> ctx_canceled [0] (WithoutCancel example_ctx)
   \<and> Ev_stream example_ctx example_streamer
        \<in> set (fst (RunAttach example_cli example_ctx ''c1'' example_opts))
   \<and> stream example_cli example_streamer = Returned (Some ContextCanceled)
   \<and> errors_Is ContextCanceled ContextCanceled
   \<and> ContainerWait example_cli = ResultFirst \<lparr>Error = None, StatusCode = 3\<rparr>
   \<and> snd (RunAttach example_cli example_ctx ''c1'' example_opts) = Returned (Some (StatusError 3))
   \<and> Ev_stream example_ctx example_streamer
        \<in> set (fst (RunAttach wait_failed_cli example_ctx ''c1'' example_opts))
   \<and> stream wait_failed_cli example_streamer = Returned (Some ContextCanceled)
   \<and> ContainerWait wait_failed_cli = ErrFirst (Some (OtherError ''wait failed''))
   \<and> snd (RunAttach wait_failed_cli example_ctx ''c1'' example_opts)
        = Returned (Some (OtherError ''wait failed''))"
proof -
  have fired: "ctx_canceled [0] example_ctx"
    by (simp add: example_defs)
  have s1: "Ev_stream example_ctx example_streamer
        \<in> set (fst (RunAttach example_cli example_ctx ''c1'' example_opts))"
    by (simp add: run_defs example_defs)
  have r1: "stream example_cli example_streamer = Returned (Some ContextCanceled)"
    by (simp add: example_defs)
  have w1: "ContainerWait example_cli = ResultFirst \<lparr>Error = None, StatusCode = 3\<rparr>"
    by (simp add: example_defs)
  have s2: "Ev_stream example_ctx example_streamer
        \<in> set (fst (RunAttach wait_failed_cli example_ctx ''c1'' example_opts))"
    by (simp add: run_defs example_defs)
  have r2: "stream wait_failed_cli example_streamer = Returned (Some ContextCanceled)"
    by (simp add: example_defs)
  have w2: "ContainerWait wait_failed_cli = ErrFirst (Some (OtherError ''wait failed''))"
    by (simp add: example_defs)
  have is_c: "errors_Is ContextCanceled ContextCanceled"
    by simp
  have nz: "(3 :: int64) \<noteq> 0"
    by simp
  from wait_survives_cancellation [of example_cli example_ctx "''c1''" example_opts]
  have c0: "\<not> ctx_canceled [0] (WithoutCancel example_ctx)"
    by blast
  from wait_survives_cancellation [of example_cli example_ctx "''c1''" example_opts] s1 r1 is_c w1 nz
  have c1: "snd (RunAttach example_cli example_ctx ''c1'' example_opts) = Returned (Some (StatusError 3))"
    by blast
  from wait_survives_cancellation [of wait_failed_cli example_ctx "''c1''" example_opts] s2 r2 is_c w2
  have c2: "snd (RunAttach wait_failed_cli example_ctx ''c1'' example_opts)
        = Returned (Some (OtherError ''wait failed''))"
    by blast
  from fired c0 s1 r1 is_c w1 c1 s2 r2 w2 c2 show ?thesis by simp
qed

end
